theory Spec2Isabelle
  imports Main "HOL-Library.Sublist"
begin

section \<open>JavaScript strings, values and plain objects\<close>

text \<open>
  The configuration module (env-config.js) and the health and retry code of server.js are
  embedded as HOL functions. A JavaScript string is a \<^typ>\<open>string\<close>; its characters are
  the code units below 256, so \<open>length\<close> is the JavaScript \<open>length\<close> on such strings.
\<close>

text \<open>White space as \<open>String.prototype.trim\<close> and \<open>parseInt\<close> see it, within the
  code units below 256: TAB, LF, VT, FF, CR, SPACE and NBSP.\<close>

definition isWhiteSpace :: "char \<Rightarrow> bool" where
  "isWhiteSpace c = (c \<in> set [CHR 0x09, CHR 0x0A, CHR 0x0B, CHR 0x0C, CHR 0x0D, CHR 0x20, CHR 0xA0])"

text \<open>The characters the regular-expression dot does not match.\<close>

definition isLineTerminator :: "char \<Rightarrow> bool" where
  "isLineTerminator c = (c = CHR 0x0A \<or> c = CHR 0x0D)"

definition trim :: "string \<Rightarrow> string" where
  "trim s = rev (dropWhile isWhiteSpace (rev (dropWhile isWhiteSpace s)))"

definition startsWith :: "string \<Rightarrow> string \<Rightarrow> bool" where
  "startsWith s p = (take (length p) s = p)"

definition endsWith :: "string \<Rightarrow> string \<Rightarrow> bool" where
  "endsWith s p = (take (length p) (rev s) = rev p)"

text \<open>\<open>s.slice(1, -1)\<close>: without the first and the last code unit; empty when \<open>s\<close> has
  fewer than two.\<close>

definition slice_1_m1 :: "string \<Rightarrow> string" where
  "slice_1_m1 s = butlast (tl s)"

text \<open>\<open>content.split(sep)\<close> for a one-character separator: never the empty list.\<close>

fun split :: "char \<Rightarrow> string \<Rightarrow> string list" where
  "split sep [] = [[]]"
| "split sep (c # cs) =
     (if c = sep then [] # split sep cs
      else (case split sep cs of [] \<Rightarrow> [[c]] | l # ls \<Rightarrow> (c # l) # ls))"

text \<open>\<open>xs.join(sep)\<close>.\<close>

fun join :: "string \<Rightarrow> string list \<Rightarrow> string" where
  "join sep [] = []"
| "join sep [x] = x"
| "join sep (x # y # ys) = x @ sep @ join sep (y # ys)"

text \<open>
  The integers from -2^53 to 2^53: each is a Number exactly, and \<open>String\<close> prints it
  as its plain decimal digits. The numeric literals of the modelled code lie in this range.
\<close>

typedef safeInteger = "{n :: int. - 9007199254740992 \<le> n \<and> n \<le> 9007199254740992}"
  morphisms integerValue SafeInteger
  by (rule exI [of _ 0]) simp

text \<open>
  The values the modelled code passes around. Reading a property that an object does not
  own falls through to \<open>Object.prototype\<close>: there it finds a built-in method
  (\<open>InheritedFunction\<close>), the prototype object itself under the name \<open>__proto__\<close>
  (\<open>PrototypeObject\<close>), or nothing (\<open>Undefined\<close>). \<open>Num\<close> is a Number that is
  a safe integer, \<open>Bool\<close> a boolean.
\<close>

datatype jsval =
  Undefined | Str string | Bool bool | Num safeInteger | InheritedFunction | PrototypeObject

text \<open>
  The Numbers that \<open>parseInt\<close> returns. \<open>Integer n\<close> is the safe integer \<open>n\<close>.
  \<open>Rounded k\<close> stands for the Number that an integer \<open>k\<close> beyond 2^53 in size rounds
  to: the nearest double, or an infinity past the range of doubles. It is not computed
  further.
\<close>

datatype number = NaN | Integer safeInteger | Rounded int

text \<open>A plain object whose own properties are all strings (the configuration object,
  \<open>process.env\<close>).\<close>

type_synonym strobj = "string \<rightharpoonup> string"

definition objectPrototypeMethods :: "string list" where
  "objectPrototypeMethods =
     [''constructor'', ''hasOwnProperty'', ''isPrototypeOf'', ''propertyIsEnumerable'',
      ''toString'', ''toLocaleString'', ''valueOf'', ''__defineGetter__'',
      ''__defineSetter__'', ''__lookupGetter__'', ''__lookupSetter__'']"

text \<open>\<open>obj[k]\<close>.\<close>

definition getProp :: "strobj \<Rightarrow> string \<Rightarrow> jsval" where
  "getProp obj k =
     (case obj k of
        Some v \<Rightarrow> Str v
      | None \<Rightarrow>
          if k = ''__proto__'' then PrototypeObject
          else if k \<in> set objectPrototypeMethods then InheritedFunction
          else Undefined)"

text \<open>\<open>obj[k] = v\<close> for a string \<open>v\<close>: an own property is created or updated, except
  that on an object without an own \<open>__proto__\<close> the assignment reaches the inherited setter,
  which ignores a string.\<close>

definition setProp :: "strobj \<Rightarrow> string \<Rightarrow> string \<Rightarrow> strobj" where
  "setProp obj k v = (if k = ''__proto__'' \<and> obj k = None then obj else obj(k \<mapsto> v))"

text \<open>Truthiness, as \<open>!x\<close>, \<open>x && y\<close> and \<open>if (x)\<close> test it.\<close>

fun truthy :: "jsval \<Rightarrow> bool" where
  "truthy Undefined = False"
| "truthy (Str s) = (s \<noteq> [])"
| "truthy (Bool b) = b"
| "truthy (Num n) = (integerValue n \<noteq> 0)"
| "truthy InheritedFunction = True"
| "truthy PrototypeObject = True"

text \<open>A \<open>Set\<close> of strings iterates in insertion order: a list without repetitions.\<close>

definition setAdd :: "string list \<Rightarrow> string \<Rightarrow> string list" where
  "setAdd xs v = (if v \<in> set xs then xs else xs @ [v])"

section \<open>EnvironmentConfig: loading\<close>

text \<open>What \<open>fs\<close> holds under a file name resolved against the working directory:
  nothing (\<open>existsSync\<close> is false), a file with its text, or an entry that
  \<open>readFileSync\<close> cannot read.\<close>

datatype fsEntry = Readable string | Unreadable

type_synonym filesystem = "string \<rightharpoonup> fsEntry"

text \<open>\<open>line.match(/^([^=]+)=(.*)$/)\<close>: the key is the non-empty run before the first
  \<open>=\<close>; the value is the rest, which must hold no line terminator.\<close>

definition matchKeyValue :: "string \<Rightarrow> (string \<times> string) option" where
  "matchKeyValue line =
     (let key = takeWhile (\<lambda>c. c \<noteq> CHR ''='') line;
          rest = dropWhile (\<lambda>c. c \<noteq> CHR ''='') line
      in if key = [] \<or> rest = [] \<or> list_ex isLineTerminator (tl rest) then None
         else Some (key, tl rest))"

definition stripQuotes :: "string \<Rightarrow> string" where
  "stripQuotes cleanValue =
     (if (startsWith cleanValue [CHR 0x22] \<and> endsWith cleanValue [CHR 0x22]) \<or>
         (startsWith cleanValue [CHR 0x27] \<and> endsWith cleanValue [CHR 0x27])
      then slice_1_m1 cleanValue else cleanValue)"

text \<open>
  The body of \<open>loadEnvFile\<close> over the lines of one file. \<open>this.config.hasOwnProperty\<close>
  is itself a property read: once a file has defined a key of that name the call throws a
  TypeError, which the enclosing \<open>try\<close> catches, and the rest of the file is dropped.
  Console output is not part of the state.
\<close>

fun loadEnvLines :: "strobj \<Rightarrow> string list \<Rightarrow> strobj" where
  "loadEnvLines cfg [] = cfg"
| "loadEnvLines cfg (raw # rest) =
     (let line = trim raw in
      if line = [] \<or> startsWith line ''#'' then loadEnvLines cfg rest
      else
        (case matchKeyValue line of
           None \<Rightarrow> loadEnvLines cfg rest
         | Some (key, val) \<Rightarrow>
             (let cleanKey = trim key;
                  cleanValue = stripQuotes (trim val)
              in if cfg ''hasOwnProperty'' \<noteq> None then cfg
                 else if cfg cleanKey = None
                   then loadEnvLines (setProp cfg cleanKey cleanValue) rest
                   else loadEnvLines cfg rest)))"

definition loadEnvFile :: "strobj \<Rightarrow> fsEntry \<Rightarrow> strobj" where
  "loadEnvFile cfg entry =
     (case entry of
        Readable content \<Rightarrow> loadEnvLines cfg (split CHR 0x0A content)
      | Unreadable \<Rightarrow> cfg)"

text \<open>One iteration of \<open>envFiles.forEach\<close>.\<close>

definition loadIfExists :: "filesystem \<Rightarrow> string \<Rightarrow> strobj \<Rightarrow> strobj" where
  "loadIfExists fs file cfg =
     (case fs file of None \<Rightarrow> cfg | Some entry \<Rightarrow> loadEnvFile cfg entry)"

definition envFiles :: "string \<Rightarrow> string list" where
  "envFiles environment = [''.env'', ''.env.'' @ environment, ''.env.local'']"

text \<open>\<open>loadEnvironmentFiles\<close>, started on the empty object of the constructor; the
  last line is the spread \<open>{ ...this.config, ...process.env }\<close>.\<close>

definition loadEnvironmentFiles :: "string \<Rightarrow> filesystem \<Rightarrow> strobj \<Rightarrow> strobj" where
  "loadEnvironmentFiles environment fs penv =
     fold (loadIfExists fs) (envFiles environment) Map.empty ++ penv"

section \<open>EnvironmentConfig: the object, validation and typed reads\<close>

record EnvironmentConfig =
  environment :: string
  requiredVars :: "string list"
  secretVars :: "string list"
  config :: strobj

text \<open>What a \<open>throw\<close> carries: an \<open>Error\<close> made by the code, or the TypeError of
  the runtime when a call or a property read has no target.\<close>

datatype error = Error string | TypeError string

datatype consoleLine = ConsoleLog string | ConsoleError string

text \<open>
  The four patterns of \<open>isInsecureSecret\<close> have one shape: alternatives tried at the
  start of the input, with or without a closing \<open>$\<close>, under the flag \<open>i\<close>.
  \<open>Regex alts dollar\<close> is \<open>/^(alts)/i\<close>, or \<open>/^(alts)$/i\<close> when \<open>dollar\<close> holds.
\<close>

datatype regex = Regex "string list" bool

text \<open>Case folding of the flag \<open>i\<close>: upper case, exact on ASCII. The patterns hold ASCII
  only, and no code unit from 128 on folds to an ASCII one.\<close>

definition canonicalize :: "char \<Rightarrow> char" where
  "canonicalize c =
     (case map_of (zip ''abcdefghijklmnopqrstuvwxyz'' ''ABCDEFGHIJKLMNOPQRSTUVWXYZ'') c of
        Some u \<Rightarrow> u
      | None \<Rightarrow> c)"

fun test :: "regex \<Rightarrow> string \<Rightarrow> bool" where
  "test (Regex alts dollar) v =
     list_ex (\<lambda>a. map canonicalize (take (length a) v) = map canonicalize a \<and>
                   (if dollar then length v = length a else True)) alts"

definition insecurePatterns :: "regex list" where
  "insecurePatterns =
     [Regex [''dev'', ''development'', ''test'', ''staging'', ''demo''] False,
      Regex [''your-'', ''change-this'', ''replace-with'', ''example''] False,
      Regex [''secret'', ''password'', ''key''] True,
      Regex [''123'', ''abc'', ''test''] False]"

definition isInsecureSecret :: "string \<Rightarrow> string \<Rightarrow> bool" where
  "isInsecureSecret key v = (list_ex (\<lambda>pattern. test pattern v) insecurePatterns \<or> length v < 16)"

definition missingKeys :: "EnvironmentConfig \<Rightarrow> string list" where
  "missingKeys this = filter (\<lambda>key. \<not> truthy (getProp (config this) key)) (requiredVars this)"

text \<open>
  \<open>value && this.isInsecureSecret(key, value)\<close> on what \<open>this.config[key]\<close> reads. An
  inherited method is truthy, its text matches no pattern and its \<open>length\<close> (its arity) is
  below 16; the prototype object is truthy, prints as \<open>[object Object]\<close> and has no
  \<open>length\<close>, so the comparison with 16 is false.
\<close>

definition insecureValue :: "string \<Rightarrow> jsval \<Rightarrow> bool" where
  "insecureValue key val =
     (case val of
        Str v \<Rightarrow> v \<noteq> [] \<and> isInsecureSecret key v
      | InheritedFunction \<Rightarrow> True
      | _ \<Rightarrow> False)"

definition insecureKeys :: "EnvironmentConfig \<Rightarrow> string list" where
  "insecureKeys this =
     (if environment this = ''production''
      then filter (\<lambda>key. insecureValue key (getProp (config this) key)) (secretVars this)
      else [])"

text \<open>\<open>validateConfiguration\<close>: the lines it writes to the console, and the error it
  throws (\<open>Inl\<close>) or its normal return.\<close>

definition validateConfiguration :: "EnvironmentConfig \<Rightarrow> consoleLine list \<times> (error + unit)" where
  "validateConfiguration this =
     (let missing = missingKeys this;
          insecure = insecureKeys this
      in if missing \<noteq> [] then
           ([ConsoleError (''[ENV] Missing required environment variables: '' @ join '', '' missing)],
            Inl (Error (''Missing required environment variables: '' @ join '', '' missing)))
         else if insecure \<noteq> [] then
           ([ConsoleError (''[ENV] Insecure secrets detected in production: '' @ join '', '' insecure)],
            Inl (Error (''Insecure secrets detected in production: '' @ join '', '' insecure)))
         else
           ([ConsoleLog (''[ENV] Configuration validated for '' @ environment this @ '' environment'')],
            Inr ()))"

text \<open>The constructor: \<open>new EnvironmentConfig()\<close> throws what validation throws.\<close>

text \<open>\<open>process.env.NODE_ENV || 'development'\<close>.\<close>

definition environmentOf :: "strobj \<Rightarrow> string" where
  "environmentOf penv =
     (case penv ''NODE_ENV'' of
        Some v \<Rightarrow> if v \<noteq> [] then v else ''development''
      | None \<Rightarrow> ''development'')"

definition newEnvironmentConfig :: "filesystem \<Rightarrow> strobj \<Rightarrow> error + EnvironmentConfig" where
  "newEnvironmentConfig fs penv =
     (let this = \<lparr>environment = environmentOf penv,
                  requiredVars = [],
                  secretVars = [''SESSION_SECRET'', ''JWT_SECRET'', ''MONGODB_URI''],
                  config = loadEnvironmentFiles (environmentOf penv) fs penv\<rparr>
      in case snd (validateConfiguration this) of
           Inl e \<Rightarrow> Inl e
         | Inr _ \<Rightarrow> Inr this)"

definition require :: "EnvironmentConfig \<Rightarrow> string list \<Rightarrow> EnvironmentConfig" where
  "require this vars = this\<lparr>requiredVars := fold (\<lambda>v s. setAdd s v) vars (requiredVars this)\<rparr>"

definition secrets :: "EnvironmentConfig \<Rightarrow> string list \<Rightarrow> EnvironmentConfig" where
  "secrets this vars = this\<lparr>secretVars := fold (\<lambda>v s. setAdd s v) vars (secretVars this)\<rparr>"

text \<open>Module initialisation of env-config.js: the singleton is constructed, then the
  required and secret names are registered on it. \<open>logConfiguration\<close> only prints.\<close>

definition envConfigModule :: "filesystem \<Rightarrow> strobj \<Rightarrow> error + EnvironmentConfig" where
  "envConfigModule fs penv =
     (case newEnvironmentConfig fs penv of
        Inl e \<Rightarrow> Inl e
      | Inr envConfig \<Rightarrow>
          Inr (secrets (require envConfig [''NODE_ENV'', ''PORT'', ''MONGODB_URI''])
                       [''SESSION_SECRET'', ''JWT_SECRET'', ''MONGODB_URI'']))"

definition get :: "EnvironmentConfig \<Rightarrow> string \<Rightarrow> jsval \<Rightarrow> jsval" where
  "get this key defaultValue =
     (let val = getProp (config this) key
      in if val \<noteq> Undefined then val else defaultValue)"

text \<open>A decimal digit: the code units 48 to 57.\<close>

definition isDigit :: "char \<Rightarrow> bool" where
  "isDigit c = (48 \<le> (of_char c :: nat) \<and> (of_char c :: nat) \<le> 57)"

definition digitsValue :: "string \<Rightarrow> int" where
  "digitsValue ds = foldl (\<lambda>acc c. 10 * acc + (int (of_char c) - 48)) 0 ds"

text \<open>
  \<open>parseInt(s, 10)\<close> on a string: leading white space is skipped, then an optional
  sign, then the longest run of decimal digits is read; the result is NaN when that run
  is empty. The value of the run is a Number exactly when it is a safe integer; beyond
  that it is rounded. Minus zero is zero here.
\<close>

definition skipSign :: "string \<Rightarrow> string" where
  "skipSign t = (if t \<noteq> [] \<and> (hd t = CHR ''-'' \<or> hd t = CHR ''+'') then tl t else t)"

definition leadingDigits :: "string \<Rightarrow> string" where
  "leadingDigits s = takeWhile isDigit (skipSign (dropWhile isWhiteSpace s))"

definition parseIntString :: "string \<Rightarrow> number" where
  "parseIntString s =
     (let t = dropWhile isWhiteSpace s;
          neg = (t \<noteq> [] \<and> hd t = CHR ''-'');
          z = leadingDigits s;
          k = (if neg then - 1 else 1) * digitsValue z
      in if z = [] then NaN
         else if - 9007199254740992 \<le> k \<and> k \<le> 9007199254740992 then Integer (SafeInteger k)
         else Rounded k)"

text \<open>\<open>String(n)\<close> for a safe integer: its decimal digits, after a minus sign when it
  is negative.\<close>

fun showNat :: "nat \<Rightarrow> string" where
  "showNat n =
     (if n < 10 then [char_of (48 + n)]
      else showNat (n div 10) @ [char_of (48 + n mod 10)])"

definition showInt :: "int \<Rightarrow> string" where
  "showInt n = (if n < 0 then CHR ''-'' # showNat (nat (- n)) else showNat (nat n))"

text \<open>\<open>parseInt(value, 10)\<close>: the argument is converted to a string first. The text of
  a function, \<open>[object Object]\<close>, \<open>true\<close>, \<open>false\<close> and \<open>undefined\<close> start
  with no digit.\<close>

fun parseInt :: "jsval \<Rightarrow> number" where
  "parseInt (Str s) = parseIntString s"
| "parseInt (Num n) = parseIntString (showInt (integerValue n))"
| "parseInt (Bool b) = NaN"
| "parseInt Undefined = NaN"
| "parseInt InheritedFunction = NaN"
| "parseInt PrototypeObject = NaN"

text \<open>\<open>getInt\<close>; \<open>None\<close> is the result \<open>undefined\<close>.\<close>

definition getInt :: "EnvironmentConfig \<Rightarrow> string \<Rightarrow> jsval \<Rightarrow> number option" where
  "getInt this key defaultValue =
     (let val = get this key defaultValue
      in if val \<noteq> Undefined then Some (parseInt val) else None)"

text \<open>\<open>String.prototype.toLowerCase\<close> on a code unit below 256: the letters A to Z,
  and the Latin-1 capitals 192 to 222 other than the multiplication sign 215.\<close>

definition toLowerCase :: "char \<Rightarrow> char" where
  "toLowerCase c =
     (case map_of (zip ''ABCDEFGHIJKLMNOPQRSTUVWXYZ'' ''abcdefghijklmnopqrstuvwxyz'') c of
        Some l \<Rightarrow> l
      | None \<Rightarrow>
          if 192 \<le> (of_char c :: nat) \<and> (of_char c :: nat) \<le> 222 \<and> (of_char c :: nat) \<noteq> 215
          then char_of ((of_char c :: nat) + 32)
          else c)"

text \<open>
  \<open>getBool\<close>. The value read is a string, or the default when the key is absent. Only
  a string has \<open>toLowerCase\<close>: on any other value that is not \<open>undefined\<close> (a boolean
  default, an inherited method) the call \<open>value.toLowerCase()\<close> throws a TypeError.
\<close>

definition getBool :: "EnvironmentConfig \<Rightarrow> string \<Rightarrow> jsval \<Rightarrow> error + jsval" where
  "getBool this key defaultValue =
     (case get this key defaultValue of
        Undefined \<Rightarrow> Inr defaultValue
      | Str v \<Rightarrow> Inr (Bool (map toLowerCase v = ''true'' \<or> v = ''1''))
      | _ \<Rightarrow> Inl (TypeError ''value.toLowerCase is not a function''))"

text \<open>
  \<open>getArray\<close>. A missing or empty value gives the default; a string is split at the
  commas, each piece trimmed, and the empty pieces dropped; an inherited value has no
  \<open>split\<close>.
\<close>

definition getArray :: "EnvironmentConfig \<Rightarrow> string \<Rightarrow> string list \<Rightarrow> error + string list" where
  "getArray this key defaultValue =
     (let val = get this key Undefined
      in if \<not> truthy val then Inr defaultValue
         else
           (case val of
              Str v \<Rightarrow> Inr (filter (\<lambda>item. item \<noteq> []) (map trim (split CHR '','' v)))
            | _ \<Rightarrow> Inl (TypeError ''value.split is not a function'')))"

text \<open>The callback of \<open>this.secretVars.forEach\<close> in \<open>getSanitizedConfig\<close>.\<close>

definition maskSecret :: "string \<Rightarrow> strobj \<Rightarrow> strobj" where
  "maskSecret key sanitized =
     (if truthy (getProp sanitized key) then setProp sanitized key ''***MASKED***''
      else sanitized)"

definition getSanitizedConfig :: "EnvironmentConfig \<Rightarrow> strobj" where
  "getSanitizedConfig this = fold maskSecret (secretVars this) (config this)"

section \<open>server.js: start-up, connection retry and the probe endpoints\<close>

text \<open>
  The top level of server.js, as far as the configuration decides it. The script loads
  the configuration module, reads \<open>ENABLE_REQUEST_LOGGING\<close> with \<open>getBool\<close> and the
  default \<open>true\<close>, reads \<open>CORS_ORIGINS\<close> with \<open>getArray\<close>, reads the database
  settings, and at its end calls \<open>app.listen(port, host, callback)\<close>. An error thrown
  on the way is uncaught and ends the process with exit code 1 before the call to
  \<open>app.listen\<close>. The callback of \<open>app.listen\<close> evaluates \<open>mongoUri.replace(...)\<close>,
  which throws when \<open>MONGODB_URI\<close> is absent: the process then ends after the listener
  was opened. The other reads (\<open>get\<close>, and \<open>getInt\<close> on the database settings) throw
  nothing; the calls into express, cors, swagger and mongoose are taken to return.
\<close>

datatype startup =
    UncaughtException error
  | Listen "number option" jsval
  | ListenThenThrow "number option" jsval error

definition serverStartup :: "filesystem \<Rightarrow> strobj \<Rightarrow> startup" where
  "serverStartup fs penv =
     (case envConfigModule fs penv of
        Inl e \<Rightarrow> UncaughtException e
      | Inr envConfig \<Rightarrow>
          (case getBool envConfig ''ENABLE_REQUEST_LOGGING'' (Bool True) of
             Inl e \<Rightarrow> UncaughtException e
           | Inr enableRequestLogging \<Rightarrow>
               (case getArray envConfig ''CORS_ORIGINS'' [''http://localhost:3001''] of
                  Inl e \<Rightarrow> UncaughtException e
                | Inr corsOrigins \<Rightarrow>
                    (let mongoUri = get envConfig ''MONGODB_URI'' Undefined;
                         port = getInt envConfig ''PORT'' (Num (SafeInteger 3000));
                         host = get envConfig ''HOST'' (Str ''0.0.0.0'')
                     in case mongoUri of
                          Str uri \<Rightarrow> Listen port host
                        | _ \<Rightarrow>
                            ListenThenThrow port host
                              (TypeError ''mongoUri.replace: cannot read properties of undefined'')))))"

text \<open>A process environment that sets the label, the database and request logging, and
  no PORT.\<close>

definition envWithoutPort :: strobj where
  "envWithoutPort =
     [''NODE_ENV'' \<mapsto> ''development'',
      ''MONGODB_URI'' \<mapsto> ''mongodb://localhost:27017/bb-db'',
      ''ENABLE_REQUEST_LOGGING'' \<mapsto> ''true'']"

text \<open>What the asynchronous code does to the outside, in order.\<close>

datatype effect =
    MongooseConnect
  | SetTimeout nat
  | Ping
  | LogInfo string
  | LogWarn string
  | LogError string
  | ProcessExit nat

text \<open>
  The \<open>for\<close> loop of \<open>connectWithRetry\<close>, over the two local constants
  \<open>maxRetries\<close> and \<open>retryDelay\<close> that the function fixes below. \<open>connect attempt\<close>
  is the outcome of \<open>mongoose.connect\<close> at that attempt: \<open>None\<close> when it resolves,
  the error message when it rejects. The result is \<open>Inl\<close> for the rethrown error. The
  delay of the code is a whole number of seconds, so \<open>retryDelay / 1000\<close> is the integer
  quotient.
\<close>

function retryLoop :: "nat \<Rightarrow> nat \<Rightarrow> (nat \<Rightarrow> string option) \<Rightarrow> nat \<Rightarrow> effect list \<times> (string + unit)" where
  "retryLoop maxRetries retryDelay connect attempt =
     (if attempt \<le> maxRetries then
        (let attempting = [LogInfo (''Attempting to connect to MongoDB (attempt '' @ showNat attempt
                                    @ ''/'' @ showNat maxRetries @ '')...''),
                           MongooseConnect]
         in case connect attempt of
              None \<Rightarrow> (attempting @ [LogInfo ''Successfully connected to MongoDB''], Inr ())
            | Some message \<Rightarrow>
                (let failed = attempting @ [LogError (''Connection attempt '' @ showNat attempt
                                                      @ '' failed: '' @ message)]
                 in if attempt = maxRetries then
                      (failed @ [LogError ''Max retries reached. Unable to connect to MongoDB''],
                       Inl message)
                    else
                      (let again = retryLoop maxRetries retryDelay connect (Suc attempt)
                       in (failed @ [LogInfo (''Retrying in '' @ showNat (retryDelay div 1000)
                                              @ '' seconds...''),
                                     SetTimeout retryDelay] @ fst again,
                           snd again))))
      else ([], Inr ()))"
  by pat_completeness auto
termination
  by (relation "measure (\<lambda>(maxRetries, retryDelay, connect, attempt). Suc maxRetries - attempt)") auto

definition connectWithRetry :: "(nat \<Rightarrow> string option) \<Rightarrow> effect list \<times> (string + unit)" where
  "connectWithRetry connect = retryLoop 10 5000 connect 1"

text \<open>\<open>connectWithRetry().catch(error => { log.error(...); process.exit(1); })\<close>.\<close>

definition initializeConnection :: "(nat \<Rightarrow> string option) \<Rightarrow> effect list" where
  "initializeConnection connect =
     (case snd (connectWithRetry connect) of
        Inl message \<Rightarrow>
          fst (connectWithRetry connect)
            @ [LogError (''Failed to connect to MongoDB: '' @ message), ProcessExit 1]
      | Inr _ \<Rightarrow> fst (connectWithRetry connect))"

text \<open>The outcome of \<open>await mongoose.connection.db.admin().ping()\<close>.\<close>

datatype pingResult = PingOk | PingThrows string

text \<open>The table \<open>dbStates\<close> over \<open>mongoose.connection.readyState\<close>, with its
  \<open>|| 'unknown'\<close>.\<close>

definition dbStates :: "nat \<Rightarrow> string" where
  "dbStates dbState =
     (if dbState = 0 then ''disconnected''
      else if dbState = 1 then ''connected''
      else if dbState = 2 then ''connecting''
      else if dbState = 3 then ''disconnecting''
      else ''unknown'')"

text \<open>The part of the \<open>/health\<close> body that depends on the database; the other fields
  (timestamp, service, version, environment, uptime, memory, metrics) are copied from the
  process and decide nothing.\<close>

record healthStatus =
  status :: string
  db_state :: string
  db_healthy :: bool
  db_error :: "string option"
  db_responseTime :: "int option"

record healthResponse =
  h_statusCode :: nat
  h_body :: healthStatus

text \<open>
  The handler of \<open>GET /health\<close>. \<open>dbStartTime\<close> and \<open>dbEndTime\<close> are the two
  readings of \<open>Date.now()\<close>, before the state is read and after the ping has settled.
  A ping that throws is caught by the inner \<open>try\<close>; the outer \<open>catch\<close>, which also
  answers 503, guards the calls that read the process and is reached by nothing here.
\<close>

definition healthHandler :: "nat \<Rightarrow> pingResult \<Rightarrow> int \<Rightarrow> int \<Rightarrow> effect list \<times> healthResponse" where
  "healthHandler dbState ping dbStartTime dbEndTime =
     (let label = dbStates dbState;
          probes = (if dbState = 1 then [Ping] else []);
          healthStatus =
            (if dbState = 1 then
               (case ping of
                  PingOk \<Rightarrow>
                    \<lparr>status = ''healthy'', db_state = label, db_healthy = True,
                     db_error = None, db_responseTime = Some (dbEndTime - dbStartTime)\<rparr>
                | PingThrows message \<Rightarrow>
                    \<lparr>status = ''unhealthy'', db_state = label, db_healthy = False,
                     db_error = Some message, db_responseTime = Some (dbEndTime - dbStartTime)\<rparr>)
             else
               \<lparr>status = ''unhealthy'', db_state = label, db_healthy = False,
                db_error = Some (''Database is '' @ label), db_responseTime = None\<rparr>);
          statusCode = (if status healthStatus = ''healthy'' then 200 else 503);
          warns = (if statusCode \<noteq> 200 then [LogWarn ''Health check failed''] else [])
      in (probes @ warns, \<lparr>h_statusCode = statusCode, h_body = healthStatus\<rparr>))"



text \<open>Reading a trace: the connection attempts made, and the attempts together with
  the waits between them.\<close>

fun connectOrWait :: "effect \<Rightarrow> bool" where
  "connectOrWait MongooseConnect = True"
| "connectOrWait (SetTimeout ms) = True"
| "connectOrWait e = False"

definition attemptsMade :: "effect list \<Rightarrow> nat" where
  "attemptsMade trace = length (filter ((=) MongooseConnect) trace)"

text \<open>A database that refuses every connection.\<close>

definition alwaysRefused :: "nat \<Rightarrow> string option" where
  "alwaysRefused attempt = Some ''connect ECONNREFUSED 127.0.0.1:27017''"

section \<open>The secret policy in the specification's words\<close>

text \<open>
  The second description of the insecure-value rule, written from the specification and
  not from the code: a value is insecure when it has one of the listed prefixes, or is
  one of the listed words, both without regard to case, or is shorter than 16.
\<close>

definition spec_ci_prefix :: "string \<Rightarrow> string \<Rightarrow> bool" where
  "spec_ci_prefix p v = prefix (map canonicalize p) (map canonicalize v)"

definition spec_ci_equal :: "string \<Rightarrow> string \<Rightarrow> bool" where
  "spec_ci_equal p v = (map canonicalize p = map canonicalize v)"

definition spec_insecure :: "string \<Rightarrow> bool" where
  "spec_insecure v =
     ((\<exists>p \<in> set [''dev'', ''development'', ''test'', ''staging'', ''demo'']. spec_ci_prefix p v) \<or>
      (\<exists>p \<in> set [''your-'', ''change-this'', ''replace-with'', ''example'']. spec_ci_prefix p v) \<or>
      (\<exists>p \<in> set [''123'', ''abc'', ''test'']. spec_ci_prefix p v) \<or>
      (\<exists>p \<in> set [''secret'', ''password'', ''key'']. spec_ci_equal p v) \<or>
      length v < 16)"

section \<open>Printing and reading integers\<close>

declare showNat.simps [simp del]

lemma digit_char:
  "d < 10 \<Longrightarrow> isDigit (char_of (48 + d)) \<and> int (of_char (char_of (48 + d))) - 48 = int d"
  by (simp add: isDigit_def)

lemma isDigit_not_space: "isDigit c \<Longrightarrow> \<not> isWhiteSpace c \<and> c \<noteq> CHR ''-'' \<and> c \<noteq> CHR ''+''"
  by (auto simp: isDigit_def isWhiteSpace_def)

lemma digitsValue_snoc: "digitsValue (ds @ [c]) = 10 * digitsValue ds + (int (of_char c) - 48)"
  by (simp add: digitsValue_def)

lemma showNat_digits:
  "showNat n \<noteq> [] \<and> list_all isDigit (showNat n) \<and> digitsValue (showNat n) = int n"
proof (induction n rule: showNat.induct)
  case (1 n)
  show ?case
  proof (cases "n < 10")
    case True
    with digit_char [of n] show ?thesis
      by (simp add: showNat.simps [of n] digitsValue_def)
  next
    case False
    have last_digit: "n mod 10 < 10"
      by simp
    have split: "10 * int (n div 10) + int (n mod 10) = int n"
      by presburger
    from False "1.IH" digit_char [OF last_digit] split show ?thesis
      by (simp add: showNat.simps [of n] digitsValue_snoc)
  qed
qed

lemma takeWhile_all: "list_all P xs \<Longrightarrow> takeWhile P xs = xs"
  by (induction xs) auto

lemma leadingDigits_digits:
  assumes "ds \<noteq> []" and "list_all isDigit ds"
  shows "leadingDigits ds = ds \<and> dropWhile isWhiteSpace ds = ds"
    and "leadingDigits (CHR ''-'' # ds) = ds \<and>
         dropWhile isWhiteSpace (CHR ''-'' # ds) = CHR ''-'' # ds"
proof -
  from assms obtain c cs where ds: "ds = c # cs" and c: "isDigit c"
    by (cases ds) auto
  from assms(2) have all: "takeWhile isDigit ds = ds"
    by (rule takeWhile_all)
  from isDigit_not_space [OF c] have plain: "dropWhile isWhiteSpace ds = ds" "skipSign ds = ds"
    by (simp_all add: ds skipSign_def)
  show "leadingDigits ds = ds \<and> dropWhile isWhiteSpace ds = ds"
    unfolding leadingDigits_def plain all by simp
  have "\<not> isWhiteSpace (CHR ''-'')"
    by (simp add: isWhiteSpace_def)
  then have signed: "dropWhile isWhiteSpace (CHR ''-'' # ds) = CHR ''-'' # ds"
    "skipSign (CHR ''-'' # ds) = ds"
    by (simp_all add: skipSign_def)
  show "leadingDigits (CHR ''-'' # ds) = ds \<and>
        dropWhile isWhiteSpace (CHR ''-'' # ds) = CHR ''-'' # ds"
    unfolding leadingDigits_def signed all by simp
qed

lemma parseIntString_showInt:
  "parseIntString (showInt (integerValue n)) = Integer n"
proof -
  have range: "- 9007199254740992 \<le> integerValue n \<and> integerValue n \<le> 9007199254740992"
    using integerValue [of n] by simp
  show ?thesis
  proof (cases "integerValue n < 0")
    case True
    let ?ds = "showNat (nat (- integerValue n))"
    from showNat_digits [of "nat (- integerValue n)"] True
    have digits: "?ds \<noteq> []" "list_all isDigit ?ds" "digitsValue ?ds = - integerValue n"
      by simp_all
    note shape = leadingDigits_digits (2) [OF digits(1,2)]
    from True have "showInt (integerValue n) = CHR ''-'' # ?ds"
      by (simp add: showInt_def)
    with shape digits range show ?thesis
      by (simp add: parseIntString_def Let_def integerValue_inverse)
  next
    case False
    let ?ds = "showNat (nat (integerValue n))"
    from showNat_digits [of "nat (integerValue n)"] False
    have digits: "?ds \<noteq> []" "list_all isDigit ?ds" "digitsValue ?ds = integerValue n"
      by simp_all
    note shape = leadingDigits_digits (1) [OF digits(1,2)]
    from digits(1,2) obtain c cs where ds: "?ds = c # cs" and c: "isDigit c"
      by (cases ?ds) auto
    from isDigit_not_space [OF c] ds have nosign: "hd ?ds \<noteq> CHR ''-''"
      by simp
    from False have "showInt (integerValue n) = ?ds"
      by (simp add: showInt_def)
    with shape digits range nosign show ?thesis
      by (simp add: parseIntString_def Let_def integerValue_inverse)
  qed
qed

lemma getProp_absent:
  "obj key = None \<Longrightarrow> key \<noteq> ''__proto__'' \<Longrightarrow> key \<notin> set objectPrototypeMethods \<Longrightarrow>
   getProp obj key = Undefined"
  by (simp add: getProp_def)

lemma getInt_absent_default:
  "getProp (config this) key = Undefined \<Longrightarrow> getInt this key (Num n) = Some (Integer n)"
  by (simp add: getInt_def get_def parseIntString_showInt)

section \<open>Required keys at start-up\<close>

lemmas loader_defs =
  loadEnvironmentFiles_def envFiles_def loadIfExists_def loadEnvFile_def trim_def
  startsWith_def endsWith_def matchKeyValue_def stripQuotes_def slice_1_m1_def
  isWhiteSpace_def isLineTerminator_def setProp_def

text \<open>
  C1. The constructor validates while the set of required names is still empty; the names
  NODE_ENV, PORT and MONGODB_URI are registered on the finished object and nothing
  validates again. With no file and a process environment without PORT, the module loads
  although PORT is missing on the object it returns, and the server reaches
  \<open>app.listen\<close> on the default port 3000; validation of that object would have thrown.
  (With an empty process environment the server does stop before \<open>app.listen\<close>, not
  through validation but through the TypeError of \<open>getBool\<close> on its boolean default.)
\<close>

theorem startup_ignores_required_keys:
  "serverStartup Map.empty envWithoutPort =
     Listen (Some (Integer (SafeInteger 3000))) (Str ''0.0.0.0'') \<and>
   envConfigModule Map.empty envWithoutPort =
     Inr \<lparr>environment = ''development'',
          requiredVars = [''NODE_ENV'', ''PORT'', ''MONGODB_URI''],
          secretVars = [''SESSION_SECRET'', ''JWT_SECRET'', ''MONGODB_URI''],
          config = envWithoutPort\<rparr> \<and>
   missingKeys \<lparr>environment = ''development'',
          requiredVars = [''NODE_ENV'', ''PORT'', ''MONGODB_URI''],
          secretVars = [''SESSION_SECRET'', ''JWT_SECRET'', ''MONGODB_URI''],
          config = envWithoutPort\<rparr> = [''PORT''] \<and>
   snd (validateConfiguration \<lparr>environment = ''development'',
          requiredVars = [''NODE_ENV'', ''PORT'', ''MONGODB_URI''],
          secretVars = [''SESSION_SECRET'', ''JWT_SECRET'', ''MONGODB_URI''],
          config = envWithoutPort\<rparr>) =
     Inl (Error ''Missing required environment variables: PORT'') \<and>
   serverStartup Map.empty Map.empty =
     UncaughtException (TypeError ''value.toLowerCase is not a function'')"
proof -
  let ?cfg = "\<lparr>environment = ''development'',
          requiredVars = [''NODE_ENV'', ''PORT'', ''MONGODB_URI''],
          secretVars = [''SESSION_SECRET'', ''JWT_SECRET'', ''MONGODB_URI''],
          config = envWithoutPort\<rparr>"
  have label: "environmentOf envWithoutPort = ''development''"
    by (simp add: environmentOf_def envWithoutPort_def)
  have files: "loadEnvironmentFiles label Map.empty penv = penv" for label penv
    by (simp add: loadEnvironmentFiles_def envFiles_def loadIfExists_def)
  have module: "envConfigModule Map.empty envWithoutPort = Inr ?cfg"
    by (simp add: envConfigModule_def newEnvironmentConfig_def label files
        validateConfiguration_def missingKeys_def insecureKeys_def
        require_def secrets_def setAdd_def)
  have missing: "missingKeys ?cfg = [''PORT'']"
    by (simp add: missingKeys_def getProp_def objectPrototypeMethods_def envWithoutPort_def)
  have fails: "snd (validateConfiguration ?cfg) =
      Inl (Error ''Missing required environment variables: PORT'')"
    by (simp add: validateConfiguration_def missing)
  have logging: "getBool ?cfg ''ENABLE_REQUEST_LOGGING'' (Bool True) = Inr (Bool True)"
    by (simp add: getBool_def get_def getProp_def envWithoutPort_def toLowerCase_def)
  have cors: "getArray ?cfg ''CORS_ORIGINS'' [''http://localhost:3001''] =
      Inr [''http://localhost:3001'']"
    by (simp add: getArray_def get_def getProp_def envWithoutPort_def objectPrototypeMethods_def)
  have uri: "get ?cfg ''MONGODB_URI'' Undefined = Str ''mongodb://localhost:27017/bb-db''"
    by (simp add: get_def getProp_def envWithoutPort_def)
  have "getProp (config ?cfg) ''PORT'' = Undefined"
    by (simp add: getProp_def envWithoutPort_def objectPrototypeMethods_def)
  then have port: "getInt ?cfg ''PORT'' (Num (SafeInteger 3000)) = Some (Integer (SafeInteger 3000))"
    by (rule getInt_absent_default)
  have host: "get ?cfg ''HOST'' (Str ''0.0.0.0'') = Str ''0.0.0.0''"
    by (simp add: get_def getProp_def envWithoutPort_def objectPrototypeMethods_def)
  have listens: "serverStartup Map.empty envWithoutPort =
      Listen (Some (Integer (SafeInteger 3000))) (Str ''0.0.0.0'')"
    by (simp add: serverStartup_def module logging cors uri port host)
  have empty_module: "envConfigModule Map.empty Map.empty =
      Inr \<lparr>environment = ''development'',
          requiredVars = [''NODE_ENV'', ''PORT'', ''MONGODB_URI''],
          secretVars = [''SESSION_SECRET'', ''JWT_SECRET'', ''MONGODB_URI''],
          config = Map.empty\<rparr>"
    by (simp add: envConfigModule_def newEnvironmentConfig_def environmentOf_def files
        validateConfiguration_def missingKeys_def insecureKeys_def
        require_def secrets_def setAdd_def)
  have throws: "serverStartup Map.empty Map.empty =
      UncaughtException (TypeError ''value.toLowerCase is not a function'')"
    by (simp add: serverStartup_def empty_module getBool_def get_def getProp_def
        objectPrototypeMethods_def)
  from listens module missing fails throws show ?thesis
    by simp
qed

section \<open>Precedence of the layers\<close>

text \<open>Within the file layers a key keeps the first value it was given: no later line
  and no later file changes it.\<close>

lemma setProp_keeps: "cfg k = Some v \<Longrightarrow> cfg key = None \<Longrightarrow> setProp cfg key w k = Some v"
  by (auto simp: setProp_def)

lemma loadEnvLines_keeps: "cfg k = Some v \<Longrightarrow> loadEnvLines cfg lines k = Some v"
proof (induction lines arbitrary: cfg)
  case Nil
  then show ?case by simp
next
  case (Cons raw rest)
  then show ?case
    by (auto simp: Let_def setProp_keeps split: option.splits)
qed

lemma loadIfExists_keeps: "cfg k = Some v \<Longrightarrow> loadIfExists fs file cfg k = Some v"
  by (simp add: loadIfExists_def loadEnvFile_def loadEnvLines_keeps split: option.splits fsEntry.splits)

lemma fold_loadIfExists_keeps:
  "cfg k = Some v \<Longrightarrow> fold (loadIfExists fs) files cfg k = Some v"
  by (induction files arbitrary: cfg) (simp_all add: loadIfExists_keeps)

text \<open>
  C2. The files are read base file first, and a key is written only while absent: with
  PORT=3000 in \<open>.env\<close>, PORT=4000 in \<open>.env.production\<close> and no PORT in the process
  environment, the configuration holds the base file's 3000.
\<close>

theorem base_file_wins_over_environment_file:
  "loadEnvironmentFiles ''production''
     [''.env'' \<mapsto> Readable ''PORT=3000'', ''.env.production'' \<mapsto> Readable ''PORT=4000'']
     [''NODE_ENV'' \<mapsto> ''production''] ''PORT'' = Some ''3000''"
  by (simp add: loader_defs)

text \<open>
  C3. A key of the process environment has the process environment's value in the
  resolved configuration, whatever the files hold and in whatever order the file layers
  are read.
\<close>

theorem process_env_overrides_file_layers:
  "penv key = Some v \<Longrightarrow>
     loadEnvironmentFiles label fs penv key = Some v \<and>
     (fold (loadIfExists fs) files Map.empty ++ penv) key = Some v"
  by (simp add: loadEnvironmentFiles_def map_add_def)

theorem process_env_overrides_file_layers_witness:
  "[''PORT'' \<mapsto> ''5000''] ''PORT'' = Some ''5000'' \<and>
   loadEnvironmentFiles ''development'' [''.env'' \<mapsto> Readable ''PORT=3000'']
     [''PORT'' \<mapsto> ''5000''] ''PORT'' = Some ''5000'' \<and>
   (fold (loadIfExists [''.env'' \<mapsto> Readable ''PORT=3000'']) [''.env.local'', ''.env''] Map.empty
      ++ [''PORT'' \<mapsto> ''5000'']) ''PORT'' = Some ''5000'' \<and>
   loadEnvironmentFiles ''development'' [''.env'' \<mapsto> Readable ''PORT=3000'']
     Map.empty ''PORT'' = Some ''3000''"
  using process_env_overrides_file_layers
    [of "[''PORT'' \<mapsto> ''5000'']" "''PORT''" "''5000''" "''development''"
        "[''.env'' \<mapsto> Readable ''PORT=3000'']" "[''.env.local'', ''.env'']"]
  by (simp add: loader_defs)

section \<open>The insecure-secret rule\<close>

lemma take_eq_iff_prefix: "take (length a) v = a \<longleftrightarrow> prefix a v"
  by (metis append_eq_conv_conj prefix_def)

lemma test_open: "test (Regex alts False) v \<longleftrightarrow> (\<exists>p \<in> set alts. spec_ci_prefix p v)"
  using take_eq_iff_prefix [of "map canonicalize p" "map canonicalize v" for p]
  by (simp add: list_ex_iff spec_ci_prefix_def take_map)

lemma test_closed: "test (Regex alts True) v \<longleftrightarrow> (\<exists>p \<in> set alts. spec_ci_equal p v)"
proof -
  have "(map canonicalize (take (length a) v) = map canonicalize a \<and> length v = length a)
        \<longleftrightarrow> map canonicalize a = map canonicalize v" for a
    by (metis length_map order_refl take_all)
  then show ?thesis
    by (simp add: list_ex_iff spec_ci_equal_def)
qed

lemma isInsecureSecret_spec: "isInsecureSecret key v \<longleftrightarrow> spec_insecure v"
  unfolding isInsecureSecret_def insecurePatterns_def spec_insecure_def
  by (simp only: list_ex_Nil_iff list_ex_Cons_iff test_open test_closed) blast

lemma your_secret_here: "isInsecureSecret key ''your-secret-here''"
  by (simp add: isInsecureSecret_def insecurePatterns_def canonicalize_def)

lemma hex_secret: "\<not> isInsecureSecret key ''f3a9c1e7b5d2468091a7c3e5b9d1f204''"
  by (simp add: isInsecureSecret_def insecurePatterns_def canonicalize_def)

lemma insecureKeys_member:
  "environment this = ''production'' \<Longrightarrow> config this key = Some v \<Longrightarrow> v \<noteq> [] \<Longrightarrow>
   key \<in> set (insecureKeys this) \<longleftrightarrow> key \<in> set (secretVars this) \<and> isInsecureSecret key v"
  by (auto simp: insecureKeys_def insecureValue_def getProp_def)

text \<open>
  C4. \<open>isInsecureSecret\<close> holds of a value exactly when the specification's rule does;
  so every value shorter than 16 is insecure, \<open>your-secret-here\<close> is insecure and the
  32 hexadecimal digits are not. In production, a secret key with a non-empty value is
  listed as insecure by validation exactly when the rule holds of its value.
\<close>

theorem insecure_secret_rule:
  "(isInsecureSecret key v \<longleftrightarrow> spec_insecure v) \<and>
   (length v < 16 \<longrightarrow> isInsecureSecret key v) \<and>
   isInsecureSecret key ''your-secret-here'' \<and>
   \<not> isInsecureSecret key ''f3a9c1e7b5d2468091a7c3e5b9d1f204'' \<and>
   (environment this = ''production'' \<and> key \<in> set (secretVars this) \<and>
    config this key = Some v \<and> v \<noteq> [] \<longrightarrow>
      (key \<in> set (insecureKeys this) \<longleftrightarrow> spec_insecure v))"
proof (intro conjI impI)
  show "isInsecureSecret key v \<longleftrightarrow> spec_insecure v"
    by (rule isInsecureSecret_spec)
next
  assume "length v < 16"
  then show "isInsecureSecret key v"
    by (simp add: isInsecureSecret_def)
next
  show "isInsecureSecret key ''your-secret-here''"
    by (rule your_secret_here)
next
  show "\<not> isInsecureSecret key ''f3a9c1e7b5d2468091a7c3e5b9d1f204''"
    by (rule hex_secret)
next
  assume "environment this = ''production'' \<and> key \<in> set (secretVars this) \<and>
          config this key = Some v \<and> v \<noteq> []"
  then show "key \<in> set (insecureKeys this) \<longleftrightarrow> spec_insecure v"
    using insecureKeys_member [of this key v] isInsecureSecret_spec [of key v] by simp
qed

theorem insecure_secret_rule_witness:
  "length ''hunter2'' < 16 \<and> isInsecureSecret ''JWT_SECRET'' ''hunter2'' \<and>
   spec_insecure ''hunter2'' \<and>
   ''JWT_SECRET'' \<in> set (insecureKeys
      \<lparr>environment = ''production'', requiredVars = [],
       secretVars = [''SESSION_SECRET'', ''JWT_SECRET'', ''MONGODB_URI''],
       config = [''JWT_SECRET'' \<mapsto> ''hunter2'']\<rparr>)"
proof -
  let ?cfg = "\<lparr>environment = ''production'', requiredVars = [],
       secretVars = [''SESSION_SECRET'', ''JWT_SECRET'', ''MONGODB_URI''],
       config = [''JWT_SECRET'' \<mapsto> ''hunter2'']\<rparr>"
  note rule = insecure_secret_rule [of "''JWT_SECRET''" "''hunter2''" ?cfg]
  have short: "length ''hunter2'' < 16"
    by simp
  have registered: "environment ?cfg = ''production'' \<and> ''JWT_SECRET'' \<in> set (secretVars ?cfg) \<and>
      config ?cfg ''JWT_SECRET'' = Some ''hunter2'' \<and> ''hunter2'' \<noteq> []"
    by simp
  from rule short have insecure: "isInsecureSecret ''JWT_SECRET'' ''hunter2''"
    by blast
  with rule have spec: "spec_insecure ''hunter2''"
    by blast
  with rule registered have "''JWT_SECRET'' \<in> set (insecureKeys ?cfg)"
    by blast
  with short insecure spec show ?thesis
    by blast
qed

section \<open>The sanitized view\<close>

lemma maskSecret_other: "k \<noteq> key \<Longrightarrow> maskSecret key m k = m k"
  by (simp add: maskSecret_def setProp_def)

lemma proto_not_method: "''__proto__'' \<notin> set objectPrototypeMethods"
  by (simp add: objectPrototypeMethods_def)

lemma maskSecret_same:
  "maskSecret key m key =
     (case m key of
        Some v \<Rightarrow> Some (if v = [] then [] else ''***MASKED***'')
      | None \<Rightarrow> if key \<in> set objectPrototypeMethods then Some ''***MASKED***'' else None)"
proof (cases "m key")
  case (Some v)
  then show ?thesis
    by (simp add: maskSecret_def setProp_def getProp_def)
next
  case None
  show ?thesis
  proof (cases "key = ''__proto__''")
    case True
    with None proto_not_method show ?thesis
      by (simp add: maskSecret_def setProp_def getProp_def)
  next
    case False
    with None show ?thesis
      by (simp add: maskSecret_def setProp_def getProp_def)
  qed
qed

lemma maskSecret_twice: "maskSecret key (maskSecret key m) key = maskSecret key m key"
  by (simp add: maskSecret_same [of key "maskSecret key m"] maskSecret_same [of key m]
      split: option.splits)

lemma maskSecret_after_other:
  "k \<noteq> a \<Longrightarrow> maskSecret k (maskSecret a m) k = maskSecret k m k"
  by (simp add: maskSecret_same [of k "maskSecret a m"] maskSecret_same [of k m] maskSecret_other)

lemma fold_maskSecret:
  "fold maskSecret keys m k = (if k \<in> set keys then maskSecret k m k else m k)"
proof (induction keys arbitrary: m)
  case Nil
  show ?case by simp
next
  case (Cons a keys)
  show ?case
  proof (cases "k = a")
    case True
    with Cons show ?thesis
      by (simp add: maskSecret_twice)
  next
    case False
    with Cons show ?thesis
      by (simp add: maskSecret_after_other maskSecret_other)
  qed
qed

text \<open>
  C5, as the code has it. In the sanitized view a secret key holds the mask token when its
  value is non-empty, and keeps an empty value as it is; a secret name that the object does
  not own stays absent, unless it names a method of \<open>Object.prototype\<close>, which reads as
  truthy and is masked too. Every other key is copied unchanged.
\<close>

theorem sanitized_view_masks_nonempty_secrets:
  "getSanitizedConfig this key =
     (if key \<in> set (secretVars this) then
        (case config this key of
           Some v \<Rightarrow> Some (if v = [] then [] else ''***MASKED***'')
         | None \<Rightarrow> if key \<in> set objectPrototypeMethods then Some ''***MASKED***'' else None)
      else config this key)"
  by (simp add: getSanitizedConfig_def fold_maskSecret maskSecret_same)

text \<open>
  C5, as stated, fails on an empty secret: the guard \<open>if (sanitized[key])\<close> leaves it
  out, so its value is not replaced by the mask token and the view holds the value as it
  was.
\<close>

theorem empty_secret_is_not_masked:
  "getSanitizedConfig
     \<lparr>environment = ''production'', requiredVars = [],
      secretVars = [''SESSION_SECRET'', ''JWT_SECRET'', ''MONGODB_URI''],
      config = [''JWT_SECRET'' \<mapsto> [], ''PORT'' \<mapsto> ''3000'']\<rparr> ''JWT_SECRET'' = Some []"
  by (simp add: getSanitizedConfig_def maskSecret_def getProp_def setProp_def)

section \<open>The probe endpoints\<close>



text \<open>
  C7, as the code has it. \<open>GET /health\<close> pings the database exactly when the connection
  state is connected, and only then reports a response time, the difference of the two
  clock readings. It answers 200 exactly when the state is connected and that ping
  succeeds; a ping that throws gives 503 and an unhealthy database although the state is
  connected. In any other state the answer is 503 from the state alone. The handler always
  answers and never exits the process.
\<close>

theorem health_probes_only_when_connected:
  "(Ping \<in> set (fst (healthHandler dbState ping t0 t1)) \<longleftrightarrow> dbState = 1) \<and>
   h_statusCode (snd (healthHandler dbState ping t0 t1)) =
     (if dbState = 1 \<and> ping = PingOk then 200 else 503) \<and>
   db_healthy (h_body (snd (healthHandler dbState ping t0 t1))) = (dbState = 1 \<and> ping = PingOk) \<and>
   db_responseTime (h_body (snd (healthHandler dbState ping t0 t1))) =
     (if dbState = 1 then Some (t1 - t0) else None) \<and>
   db_state (h_body (snd (healthHandler dbState ping t0 t1))) = dbStates dbState \<and>
   ProcessExit code \<notin> set (fst (healthHandler dbState ping t0 t1))"
  by (cases ping) (simp_all add: healthHandler_def Let_def)

text \<open>
  C7, as stated, fails when the database is disconnected: the query makes no probe and
  reports no latency.
\<close>

theorem health_without_probe:
  "fst (healthHandler 0 PingOk 1000 1000) = [LogWarn ''Health check failed''] \<and>
   db_responseTime (h_body (snd (healthHandler 0 PingOk 1000 1000))) = None \<and>
   h_statusCode (snd (healthHandler 0 PingOk 1000 1000)) = 503"
  by (simp add: healthHandler_def Let_def dbStates_def)

section \<open>Connection retry\<close>

declare retryLoop.simps [simp del]

lemma retryLoop_all_refused:
  "\<forall>n. connect n \<noteq> None \<Longrightarrow> attempt \<le> maxRetries \<Longrightarrow>
     filter connectOrWait (fst (retryLoop maxRetries retryDelay connect attempt)) =
       concat (replicate (maxRetries - attempt) [MongooseConnect, SetTimeout retryDelay])
         @ [MongooseConnect] \<and>
     attemptsMade (fst (retryLoop maxRetries retryDelay connect attempt)) = Suc (maxRetries - attempt) \<and>
     snd (retryLoop maxRetries retryDelay connect attempt) = Inl (the (connect maxRetries))"
proof (induction maxRetries retryDelay connect attempt rule: retryLoop.induct)
  case (1 maxRetries retryDelay connect attempt)
  note refused = "1.prems"(1) and bound = "1.prems"(2)
  from refused have "connect attempt \<noteq> None"
    by (rule spec)
  then obtain message where message: "connect attempt = Some message"
    by auto
  show ?case
  proof (cases "attempt = maxRetries")
    case True
    with message show ?thesis
      by (simp add: retryLoop.simps [of maxRetries retryDelay connect maxRetries] attemptsMade_def)
  next
    case False
    with bound have less: "Suc attempt \<le> maxRetries" and
      diff: "maxRetries - attempt = Suc (maxRetries - Suc attempt)"
      by simp_all
    note IH = "1.IH" [OF bound refl message refl False refused less]
    from message False bound IH show ?thesis
      by (simp add: retryLoop.simps [of maxRetries retryDelay connect attempt] diff
          attemptsMade_def Let_def)
  qed
qed

text \<open>
  C8, as the code has it. When every attempt fails, \<open>connectWithRetry\<close> makes exactly 10
  attempts with a wait of 5000 ms between consecutive attempts (both constants of the
  function), rethrows the error of the tenth attempt, and the process then exits with
  code 1.
\<close>

theorem retry_exhaustion:
  assumes "\<forall>attempt. connect attempt \<noteq> None"
  shows "attemptsMade (fst (connectWithRetry connect)) = 10 \<and>
     filter connectOrWait (fst (connectWithRetry connect)) =
       concat (replicate 9 [MongooseConnect, SetTimeout 5000]) @ [MongooseConnect] \<and>
     (\<exists>message. connect 10 = Some message \<and> snd (connectWithRetry connect) = Inl message) \<and>
     last (initializeConnection connect) = ProcessExit 1"
proof -
  from assms have "connect 10 \<noteq> None"
    by (rule spec)
  then obtain message where message: "connect 10 = Some message"
    by auto
  have loop: "filter connectOrWait (fst (retryLoop 10 5000 connect 1)) =
       concat (replicate (10 - 1) [MongooseConnect, SetTimeout 5000]) @ [MongooseConnect] \<and>
     attemptsMade (fst (retryLoop 10 5000 connect 1)) = Suc (10 - 1) \<and>
     snd (retryLoop 10 5000 connect 1) = Inl (the (connect 10))"
    by (rule retryLoop_all_refused [OF assms]) simp
  with message show ?thesis
    by (simp add: connectWithRetry_def initializeConnection_def)
qed

theorem retry_exhaustion_witness:
  "(\<forall>attempt. alwaysRefused attempt \<noteq> None) \<and>
   attemptsMade (fst (connectWithRetry alwaysRefused)) = 10 \<and>
   snd (connectWithRetry alwaysRefused) = Inl ''connect ECONNREFUSED 127.0.0.1:27017'' \<and>
   last (initializeConnection alwaysRefused) = ProcessExit 1"
proof -
  have refused: "\<forall>attempt. alwaysRefused attempt \<noteq> None"
    by (simp add: alwaysRefused_def)
  have last_error: "alwaysRefused 10 = Some ''connect ECONNREFUSED 127.0.0.1:27017''"
    by (simp add: alwaysRefused_def)
  from retry_exhaustion [OF refused] refused last_error show ?thesis
    by auto
qed

text \<open>
  C8, as stated, fails: the attempt bound is the constant 10 of \<open>connectWithRetry\<close>, not
  a configured 3. Against a database that refuses every connection, ten attempts are made.
\<close>

theorem ten_attempts_when_always_refused: "attemptsMade (fst (connectWithRetry alwaysRefused)) = 10"
  by code_simp


section \<open>Typed reads\<close>

lemma long_run: "parseIntString ''9007199254740993'' = Rounded 9007199254740993"
  by (simp add: parseIntString_def leadingDigits_def skipSign_def isWhiteSpace_def isDigit_def
      digitsValue_def)

text \<open>
  C9, as the code has it. When the key is present \<open>getInt\<close> is \<open>parseInt(value, 10)\<close>
  of its value whatever the default is: a value with no leading decimal digit (after white
  space and an optional sign) gives NaN, not the default. The default is used only when
  the key is absent: a default that is a safe integer (at most 2^53 in size) is returned
  as it is, and without a default the result is undefined. No case throws. A run of
  digits whose value is not a safe integer is not read exactly: 9007199254740993 is
  rounded.
\<close>

theorem getInt_ignores_default_when_present:
  "(config this key = Some v \<longrightarrow> getInt this key d = Some (parseIntString v)) \<and>
   (config this key = Some v \<and> leadingDigits v = [] \<longrightarrow> getInt this key d = Some NaN) \<and>
   (config this absent = None \<and> absent \<noteq> ''__proto__'' \<and> absent \<notin> set objectPrototypeMethods \<longrightarrow>
      getInt this absent (Num n) = Some (Integer n) \<and> getInt this absent Undefined = None) \<and>
   parseIntString ''9007199254740993'' = Rounded 9007199254740993"
proof (intro conjI impI)
  assume "config this key = Some v"
  then show "getInt this key d = Some (parseIntString v)"
    by (simp add: getInt_def get_def getProp_def)
next
  assume "config this key = Some v \<and> leadingDigits v = []"
  then show "getInt this key d = Some NaN"
    by (simp add: getInt_def get_def getProp_def parseIntString_def)
next
  assume "config this absent = None \<and> absent \<noteq> ''__proto__'' \<and> absent \<notin> set objectPrototypeMethods"
  then have "getProp (config this) absent = Undefined"
    by (simp add: getProp_absent)
  then show "getInt this absent (Num n) = Some (Integer n)"
    by (rule getInt_absent_default)
next
  assume "config this absent = None \<and> absent \<noteq> ''__proto__'' \<and> absent \<notin> set objectPrototypeMethods"
  then have "getProp (config this) absent = Undefined"
    by (simp add: getProp_absent)
  then show "getInt this absent Undefined = None"
    by (simp add: getInt_def get_def)
next
  show "parseIntString ''9007199254740993'' = Rounded 9007199254740993"
    by (rule long_run)
qed

theorem getInt_ignores_default_when_present_witness:
  "getInt \<lparr>environment = ''development'', requiredVars = [''NODE_ENV'', ''PORT'', ''MONGODB_URI''],
           secretVars = [''SESSION_SECRET'', ''JWT_SECRET'', ''MONGODB_URI''],
           config = [''PORT'' \<mapsto> ''eighty'']\<rparr> ''PORT'' (Num (SafeInteger 3000)) = Some NaN \<and>
   parseIntString ''eighty'' = NaN \<and>
   getInt \<lparr>environment = ''development'', requiredVars = [''NODE_ENV'', ''PORT'', ''MONGODB_URI''],
           secretVars = [''SESSION_SECRET'', ''JWT_SECRET'', ''MONGODB_URI''],
           config = [''PORT'' \<mapsto> ''eighty'']\<rparr> ''DB_MAX_POOL_SIZE'' (Num (SafeInteger 10)) = Some (Integer (SafeInteger 10))"
proof -
  let ?cfg = "\<lparr>environment = ''development'', requiredVars = [''NODE_ENV'', ''PORT'', ''MONGODB_URI''],
           secretVars = [''SESSION_SECRET'', ''JWT_SECRET'', ''MONGODB_URI''],
           config = [''PORT'' \<mapsto> ''eighty'']\<rparr>"
  note rule = getInt_ignores_default_when_present
      [of ?cfg "''PORT''" "''eighty''" "Num (SafeInteger 3000)" "''DB_MAX_POOL_SIZE''" "SafeInteger 10"]
  have present: "config ?cfg ''PORT'' = Some ''eighty''"
    by simp
  have malformed: "leadingDigits ''eighty'' = []"
    by (simp add: leadingDigits_def skipSign_def isWhiteSpace_def isDigit_def)
  have absent: "config ?cfg ''DB_MAX_POOL_SIZE'' = None \<and> ''DB_MAX_POOL_SIZE'' \<noteq> ''__proto__'' \<and>
      ''DB_MAX_POOL_SIZE'' \<notin> set objectPrototypeMethods"
    by (simp add: objectPrototypeMethods_def)
  from rule present malformed have nan: "getInt ?cfg ''PORT'' (Num (SafeInteger 3000)) = Some NaN"
    by blast
  from rule present have "getInt ?cfg ''PORT'' (Num (SafeInteger 3000)) = Some (parseIntString ''eighty'')"
    by blast
  with nan have parse: "parseIntString ''eighty'' = NaN"
    by simp
  from rule absent have "getInt ?cfg ''DB_MAX_POOL_SIZE'' (Num (SafeInteger 10)) = Some (Integer (SafeInteger 10))"
    by blast
  with nan parse show ?thesis
    by blast
qed

text \<open>
  C9, as stated, fails on a malformed value: with PORT set to \<open>abc\<close> and the default
  3000, \<open>getInt\<close> returns NaN.
\<close>

theorem getInt_malformed_is_NaN:
  "getInt \<lparr>environment = ''development'', requiredVars = [''NODE_ENV'', ''PORT'', ''MONGODB_URI''],
           secretVars = [''SESSION_SECRET'', ''JWT_SECRET'', ''MONGODB_URI''],
           config = [''PORT'' \<mapsto> ''abc'']\<rparr> ''PORT'' (Num (SafeInteger 3000)) = Some NaN"
  by (simp add: getInt_def get_def getProp_def parseIntString_def leadingDigits_def skipSign_def
      isWhiteSpace_def isDigit_def)

section \<open>The environment label and the secret check\<close>




end
